theory Spec2Isabelle
  imports Complex_Main
begin

section \<open>Tensors and errors\<close>

text \<open>
  The program is \<^verbatim>\<open>bla_gpt/megabyte.py\<close>. Every Python exception the code can raise
  is a value of \<open>error\<close>; a function that may raise returns \<open>error + 'a\<close>.
\<close>

datatype error =
  TypeError | ValueError | IndexError | RuntimeError | AssertionError | ZeroDivisionError
  | NameError

text \<open>
  A tensor is its shape together with its elements in row-major order, as a contiguous
  torch tensor stores them.
\<close>

record 'a tensor =
  shape :: "nat list"
  elems :: "'a list"

definition numel :: "'a tensor \<Rightarrow> nat" where
  "numel t = prod_list (shape t)"

definition wf_tensor :: "'a tensor \<Rightarrow> bool" where
  "wf_tensor t \<longleftrightarrow> length (elems t) = prod_list (shape t)"

text \<open>The consecutive blocks of \<open>k\<close> elements of a row-major element list.\<close>

definition rows_of :: "nat \<Rightarrow> 'a list \<Rightarrow> 'a list list" where
  "rows_of k xs = map (\<lambda>i. take k (drop (i * k) xs)) [0..<length xs div k]"

section \<open>Tensor library operations used by the program\<close>

text \<open>
  \<^verbatim>\<open>t.chunk(2, dim=-1)\<close>: the chunk size is \<open>ceil(D / 2)\<close>; a last dimension of size 1
  gives a single chunk, a last dimension of size 0 gives two empty chunks.
\<close>

definition chunk2 :: "'a tensor \<Rightarrow> error + 'a tensor list" where
  "chunk2 t =
     (if shape t = [] then Inl RuntimeError
      else
        let D = last (shape t); pre = butlast (shape t); c = (D + 1) div 2 in
        if D = 0 then
          Inr [\<lparr>shape = pre @ [0], elems = []\<rparr>, \<lparr>shape = pre @ [0], elems = []\<rparr>]
        else if D \<le> c then Inr [t]
        else
          Inr [\<lparr>shape = pre @ [c], elems = concat (map (take c) (rows_of D (elems t)))\<rparr>,
               \<lparr>shape = pre @ [D - c], elems = concat (map (drop c) (rows_of D (elems t)))\<rparr>])"

text \<open>
  \<^verbatim>\<open>F.pad(t, (0, 0, 1, -1))\<close>: the last dimension is left alone; on the dimension before
  it the last position is cut off (which fails on an empty dimension) and one position of
  zeros is put in front.
\<close>

definition pad_shift :: "'a::zero tensor \<Rightarrow> error + 'a tensor" where
  "pad_shift t =
     (case rev (shape t) of
        D # n # pre \<Rightarrow>
          if n = 0 then Inl RuntimeError
          else Inr \<lparr>shape = shape t,
                    elems = concat (map (\<lambda>m. replicate D 0 @ take ((n - 1) * D) m)
                                        (rows_of (n * D) (elems t)))\<rparr>
      | _ \<Rightarrow> Inl RuntimeError)"

text \<open>
  \<^verbatim>\<open>torch.cat((a, b), dim=-1)\<close>: both tensors need the same shape outside the last
  dimension; a one-dimensional empty tensor is skipped.
\<close>

definition cat_last :: "'a tensor \<Rightarrow> 'a tensor \<Rightarrow> error + 'a tensor" where
  "cat_last a b =
     (if shape a = [] \<or> shape b = [] then Inl RuntimeError
      else if shape a = [0] then Inr b
      else if shape b = [0] then Inr a
      else if butlast (shape a) \<noteq> butlast (shape b) then Inl RuntimeError
      else
        let da = last (shape a); db = last (shape b) in
        Inr \<lparr>shape = butlast (shape a) @ [da + db],
             elems = (if da = 0 then elems b
                      else if db = 0 then elems a
                      else concat (map2 (@) (rows_of da (elems a)) (rows_of db (elems b))))\<rparr>)"

section \<open>Token shift\<close>

text \<open>
  \<^verbatim>\<open>
  def token_shift(t):
      t, t_shift = t.chunk(2, dim=-1)
      t_shift = F.pad(t_shift, (0, 0, 1, -1))
      return torch.cat((t, t_shift), dim=-1)
  \<close>
  Unpacking the result of \<^verbatim>\<open>chunk\<close> into two names raises \<^verbatim>\<open>ValueError\<close> unless
  there are exactly two chunks.
\<close>

definition token_shift :: "'a::zero tensor \<Rightarrow> error + 'a tensor" where
  "token_shift t =
     (case chunk2 t of
        Inl e \<Rightarrow> Inl e
      | Inr cs \<Rightarrow>
          (case cs of
             [t1, t_shift] \<Rightarrow>
               (case pad_shift t_shift of
                  Inl e \<Rightarrow> Inl e
                | Inr s \<Rightarrow> cat_last t1 s)
           | _ \<Rightarrow> Inl ValueError))"

section \<open>Top-k filtering of logits\<close>

text \<open>
  \<^verbatim>\<open>
  def top_k(logits, thres=0.5):
      num_logits = logits.shape[-1]
      k = max(int((1 - thres) * num_logits), 1)
      val, ind = torch.topk(logits, k)
      probs = torch.full_like(logits, float("-inf"))
      probs.scatter_(1, ind, val)
      return probs
  \<close>
  The threshold is a real number and the product is exact: the rounding of the
  floating-point product is not modelled. \<open>py_int\<close> is Python's \<^verbatim>\<open>int\<close> on a float,
  which truncates towards zero.
\<close>

definition py_int :: "real \<Rightarrow> int" where
  "py_int x = (if 0 \<le> x then \<lfloor>x\<rfloor> else \<lceil>x\<rceil>)"

definition top_k_count :: "real \<Rightarrow> nat \<Rightarrow> int" where
  "top_k_count thres num_logits = max (py_int ((1 - thres) * real num_logits)) 1"

text \<open>
  \<^verbatim>\<open>torch.topk\<close> on one row: the positions of the \<open>k\<close> largest entries, largest
  first. The library does not say which of several equal entries it takes; here the
  later position goes first.
\<close>

definition topk_indices :: "nat \<Rightarrow> 'a::linorder list \<Rightarrow> nat list" where
  "topk_indices k xs = take k (rev (sort_key (\<lambda>i. xs ! i) [0..<length xs]))"

text \<open>\<^verbatim>\<open>scatter_\<close> on one row: \<^verbatim>\<open>probs[ind[j]] = val[j]\<close> for each \<open>j\<close> in turn.\<close>

definition scatter_row :: "'b list \<Rightarrow> nat list \<Rightarrow> 'b list \<Rightarrow> 'b list" where
  "scatter_row probs ind val = fold (\<lambda>(i, v) p. p[i := v]) (zip ind val) probs"

text \<open>One row of \<^verbatim>\<open>top_k\<close>; \<open>None\<close> stands for \<^verbatim>\<open>float("-inf")\<close>.\<close>

definition top_k_row :: "nat \<Rightarrow> 'a::linorder list \<Rightarrow> 'a option list" where
  "top_k_row k row =
     (let ind = topk_indices k row;
          val = map (\<lambda>i. row ! i) ind
      in scatter_row (replicate (length row) None) ind (map Some val))"

text \<open>
  The whole function, on the two-dimensional logits \<^verbatim>\<open>(batch, num_logits)\<close> that
  \<^verbatim>\<open>generate\<close> passes. \<^verbatim>\<open>torch.topk\<close> raises when \<open>k\<close> exceeds the row length;
  \<^verbatim>\<open>scatter_(1, ...)\<close> raises on a tensor with fewer than two dimensions. Tensors of
  three or more dimensions are outside this embedding and are reported as an error.
\<close>

definition top_k :: "'a::linorder tensor \<Rightarrow> real \<Rightarrow> error + 'a option tensor" where
  "top_k logits thres =
     (case shape logits of
        [] \<Rightarrow> Inl IndexError
      | [n] \<Rightarrow> if int n < top_k_count thres n then Inl RuntimeError else Inl IndexError
      | [b, n] \<Rightarrow>
          let k = top_k_count thres n in
          if int n < k then Inl RuntimeError
          else Inr \<lparr>shape = [b, n],
                    elems = concat (map (top_k_row (nat k)) (rows_of n (elems logits)))\<rparr>
      | _ \<Rightarrow> Inl RuntimeError)"

section \<open>The model object\<close>

text \<open>
  \<^verbatim>\<open>MegaByteConfig\<close> and the attributes \<^verbatim>\<open>MegaByte.__init__\<close> derives from it. The
  numeric kernels (embedding tables, normalisations, attention, feed-forward and linear
  layers, log-softmax) compute in floating point and are parameters of the model:
  \<open>net m ids k\<close> is the entry at row-major position \<open>k\<close> of the tensor
  \<^verbatim>\<open>self.to_logits(attended)\<close> that the stages compute from the nested token ids,
  \<open>net_empty m k\<close> is the same for \<^verbatim>\<open>forward_empty\<close>, and \<open>nll m v y\<close> is the
  cross-entropy term \<open>- log_softmax(v)[y]\<close> of one position. What the code does with
  shapes, indices, token ids and errors is modelled in full. The optional absolute
  position embeddings (\<^verbatim>\<open>pos_emb\<close>, off by default) only add to values and are part of
  \<open>net\<close>.
\<close>

record 'a MegaByte =
  num_tokens :: nat
  dim :: "nat list"
  depth :: "nat list"
  max_seq_len :: "nat list"
  pad_id :: int
  net :: "int tensor \<Rightarrow> nat \<Rightarrow> 'a"
  net_empty :: "nat \<Rightarrow> 'a"
  nll :: "'a list \<Rightarrow> int \<Rightarrow> real"

definition stages :: "'a MegaByte \<Rightarrow> nat" where
  "stages m = length (depth m)"


text \<open>\<^verbatim>\<open>functools.reduce(lambda x, y: x * y, nums, 1)\<close>\<close>

definition reduce_mult :: "nat list \<Rightarrow> nat" where
  "reduce_mult nums = foldl (\<lambda>x y. x * y) 1 nums"

text \<open>\<^verbatim>\<open>(mult - num % mult) % mult\<close>\<close>

definition remainder_to_mult :: "nat \<Rightarrow> nat \<Rightarrow> error + nat" where
  "remainder_to_mult num mult =
     (if mult = 0 then Inl ZeroDivisionError else Inr ((mult - num mod mult) mod mult))"

subsection \<open>The token embedders and the stages built by the constructor\<close>

text \<open>
  \<open>Emb fine\<close> is \<^verbatim>\<open>nn.Embedding(num_tokens, fine_dim)\<close>; \<open>PatchEmb fine ps out\<close> is the
  \<^verbatim>\<open>nn.Sequential\<close> of the embedding, the flattening of a patch, a layer norm over
  \<open>ps * fine\<close> features, a linear layer to \<open>out\<close> features and a layer norm.
\<close>

datatype token_emb = Emb nat | PatchEmb nat nat nat

fun patch_embs :: "nat \<Rightarrow> nat \<Rightarrow> (nat \<times> nat) list \<Rightarrow> token_emb list" where
  "patch_embs fine patch_size [] = []"
| "patch_embs fine patch_size ((dim_out, seq_len) # rest) =
     PatchEmb fine (patch_size * seq_len) dim_out # patch_embs fine (patch_size * seq_len) rest"

definition token_embs :: "'a MegaByte \<Rightarrow> token_emb list" where
  "token_embs m =
     (let fine_dim = last (dim m) in
      Emb fine_dim #
      patch_embs fine_dim 1 (zip (rev (butlast (dim m))) (rev (tl (max_seq_len m)))))"

text \<open>
  One stage: the dimension of its start token and transformer, the depth of the
  transformer, and the projection to the next stage: \<open>None\<close> is \<^verbatim>\<open>nn.Identity()\<close>,
  \<open>Some (next_h_dim, next_seq_len)\<close> the \<^verbatim>\<open>nn.Sequential\<close> of the constructor.
\<close>

record stage =
  st_dim :: nat
  st_depth :: nat
  st_proj :: "(nat \<times> nat) option"

fun make_stages :: "nat list \<Rightarrow> nat list \<Rightarrow> nat list \<Rightarrow> stage list" where
  "make_stages (h_dim # dims) (stage_depth # depths) next_seq_lens =
     \<lparr>st_dim = h_dim, st_depth = stage_depth,
      st_proj = (case (dims, next_seq_lens) of
                   (next_h_dim # _, next_seq_len # _) \<Rightarrow> Some (next_h_dim, next_seq_len)
                 | _ \<Rightarrow> None)\<rparr>
     # make_stages dims depths (tl next_seq_lens)"
| "make_stages _ _ _ = []"

definition model_stages :: "'a MegaByte \<Rightarrow> stage list" where
  "model_stages m = make_stages (dim m) (depth m) (tl (max_seq_len m))"

section \<open>Shapes through the embedders and the stages\<close>

text \<open>
  The layers of the network act on the values in floating point; on shapes they act as
  follows (a layer applied to a tensor of the wrong shape raises). A shape is the list of
  dimension sizes, the feature dimension last.
\<close>

text \<open>\<^verbatim>\<open>Rearrange("... r d -> ... (r d)")\<close> and \<^verbatim>\<open>rearrange(ids, "... m n -> ... (m n)")\<close>\<close>

definition merge_last2 :: "nat list \<Rightarrow> error + nat list" where
  "merge_last2 sh =
     (case rev sh of d # r # pre \<Rightarrow> Inr (rev pre @ [r * d]) | _ \<Rightarrow> Inl RuntimeError)"

definition layer_norm_shape :: "nat \<Rightarrow> nat list \<Rightarrow> error + nat list" where
  "layer_norm_shape k sh = (if sh \<noteq> [] \<and> last sh = k then Inr sh else Inl RuntimeError)"

definition linear_shape :: "nat \<Rightarrow> nat \<Rightarrow> nat list \<Rightarrow> error + nat list" where
  "linear_shape n_in n_out sh =
     (if sh \<noteq> [] \<and> last sh = n_in then Inr (butlast sh @ [n_out]) else Inl RuntimeError)"

fun token_emb_shape :: "token_emb \<Rightarrow> nat list \<Rightarrow> error + nat list" where
  "token_emb_shape (Emb fine) ids_sh = Inr (ids_sh @ [fine])"
| "token_emb_shape (PatchEmb fine ps dim_out) ids_sh =
     (case merge_last2 (ids_sh @ [fine]) of
        Inl e \<Rightarrow> Inl e
      | Inr s1 \<Rightarrow>
          (case layer_norm_shape (ps * fine) s1 of
             Inl e \<Rightarrow> Inl e
           | Inr s2 \<Rightarrow>
               (case linear_shape (ps * fine) dim_out s2 of
                  Inl e \<Rightarrow> Inl e
                | Inr s3 \<Rightarrow> layer_norm_shape dim_out s3)))"

text \<open>
  The loop that fills \<^verbatim>\<open>tokens_at_stages\<close>: every embedder is applied to the current
  \<^verbatim>\<open>ids\<close>, its result is inserted at the front, and after every embedder but the first
  the last two dimensions of \<^verbatim>\<open>ids\<close> are merged. The result is the list of token shapes,
  coarsest stage first, and the final shape of \<^verbatim>\<open>ids\<close>.
\<close>

fun embed_loop ::
  "bool \<Rightarrow> token_emb list \<Rightarrow> nat list \<Rightarrow> nat list list \<Rightarrow> error + (nat list list \<times> nat list)"
where
  "embed_loop is_first [] ids_sh acc = Inr (acc, ids_sh)"
| "embed_loop is_first (e # es) ids_sh acc =
     (case token_emb_shape e ids_sh of
        Inl err \<Rightarrow> Inl err
      | Inr tokens \<Rightarrow>
          if is_first then embed_loop False es ids_sh (tokens # acc)
          else
            (case merge_last2 ids_sh of
               Inl err \<Rightarrow> Inl err
             | Inr ids_sh' \<Rightarrow> embed_loop False es ids_sh' (tokens # acc)))"

text \<open>\<^verbatim>\<open>pack_one(stage_tokens, "* n d")\<close>: the leading dimensions are flattened into one.\<close>

definition pack_shape :: "nat list \<Rightarrow> error + nat list" where
  "pack_shape sh =
     (case rev sh of d # n # pre \<Rightarrow> Inr [prod_list pre, n, d] | _ \<Rightarrow> Inl RuntimeError)"

text \<open>\<^verbatim>\<open>torch.cat((a, b), dim=-2)\<close> on shapes of three dimensions.\<close>

definition cat_dim2_shape :: "nat list \<Rightarrow> nat list \<Rightarrow> error + nat list" where
  "cat_dim2_shape a b =
     (case (a, b) of
        ([a0, a1, a2], [b0, b1, b2]) \<Rightarrow>
          if a0 = b0 \<and> a2 = b2 then Inr [a0, a1 + b1, a2] else Inl RuntimeError
      | _ \<Rightarrow> Inl RuntimeError)"

text \<open>\<^verbatim>\<open>F.pad(t, (0, 0, 1, 0), value=0.0)\<close>: one more position in front.\<close>

definition pad_front_shape :: "nat list \<Rightarrow> error + nat list" where
  "pad_front_shape sh =
     (case rev sh of d # n # pre \<Rightarrow> Inr (rev pre @ [n + 1, d]) | _ \<Rightarrow> Inl RuntimeError)"

text \<open>The shape of \<^verbatim>\<open>a + b\<close> under broadcasting; the shapes are given reversed.\<close>

fun broadcast_rev :: "nat list \<Rightarrow> nat list \<Rightarrow> error + nat list" where
  "broadcast_rev [] ys = Inr ys"
| "broadcast_rev (x # xs) [] = Inr (x # xs)"
| "broadcast_rev (x # xs) (y # ys) =
     (case broadcast_rev xs ys of
        Inl e \<Rightarrow> Inl e
      | Inr r \<Rightarrow>
          if x = y \<or> y = 1 then Inr (x # r)
          else if x = 1 then Inr (y # r)
          else Inl RuntimeError)"

definition broadcast_shape :: "nat list \<Rightarrow> nat list \<Rightarrow> error + nat list" where
  "broadcast_shape a b =
     (case broadcast_rev (rev a) (rev b) of Inl e \<Rightarrow> Inl e | Inr r \<Rightarrow> Inr (rev r))"

text \<open>
  \<open>token_shift\<close> on shapes, and a transformer of the given depth: every layer calls
  \<open>token_shift\<close> on a tensor of the shape of its input; attention and feed-forward
  keep the shape.
\<close>

definition token_shift_shape :: "nat list \<Rightarrow> error + nat list" where
  "token_shift_shape sh =
     (case rev sh of
        [] \<Rightarrow> Inl RuntimeError
      | [D] \<Rightarrow> if D = 1 then Inl ValueError else Inl RuntimeError
      | D # n # pre \<Rightarrow>
          if D = 1 then Inl ValueError
          else if n = 0 then Inl RuntimeError
          else Inr sh)"

definition transformer_shape :: "nat \<Rightarrow> nat list \<Rightarrow> error + nat list" where
  "transformer_shape layers sh = (if layers = 0 then Inr sh else token_shift_shape sh)"

text \<open>\<^verbatim>\<open>unpack_one(attended, ps, "* n d")\<close>: the first dimension is split back.\<close>

definition unpack_shape :: "nat list \<Rightarrow> nat list \<Rightarrow> error + nat list" where
  "unpack_shape ps sh =
     (case sh of
        [N, n, d] \<Rightarrow> if N = prod_list ps then Inr (ps @ [n, d]) else Inl RuntimeError
      | _ \<Rightarrow> Inl RuntimeError)"

text \<open>\<^verbatim>\<open>attended[..., :-1, :]\<close>\<close>

definition drop_last_pos_shape :: "nat list \<Rightarrow> error + nat list" where
  "drop_last_pos_shape sh =
     (case rev sh of d # n # pre \<Rightarrow> Inr (rev pre @ [n - 1, d]) | _ \<Rightarrow> Inl IndexError)"

text \<open>
  The projection to the next stage:
  \<^verbatim>\<open>Rearrange("b ... d -> b (...) d")\<close>, \<^verbatim>\<open>nn.Linear(h_dim, next_h_dim * next_seq_len)\<close>,
  \<^verbatim>\<open>Rearrange("b m (n d) -> (b m) n d", n=next_seq_len)\<close>.
\<close>

definition proj_shape :: "nat \<Rightarrow> (nat \<times> nat) option \<Rightarrow> nat list \<Rightarrow> error + nat list" where
  "proj_shape h_dim proj sh =
     (case proj of
        None \<Rightarrow> Inr sh
      | Some (next_h_dim, next_seq_len) \<Rightarrow>
          (case sh of
             b # rest \<Rightarrow>
               (if rest = [] then Inl RuntimeError
                else
                  (case linear_shape h_dim (next_h_dim * next_seq_len)
                          [b, prod_list (butlast rest), last rest] of
                     Inl e \<Rightarrow> Inl e
                   | Inr s \<Rightarrow>
                       if next_seq_len = 0 then Inl RuntimeError
                       else Inr [b * prod_list (butlast rest), next_seq_len,
                                 (next_h_dim * next_seq_len) div next_seq_len]))
           | [] \<Rightarrow> Inl RuntimeError))"

text \<open>
  One pass of the loop over the stages: the start token is concatenated in front, the
  padded representation of the previous stage is added, the transformer runs, and the
  output without its last position is projected for the next stage. The result is the
  shape of \<^verbatim>\<open>attended\<close> and of the new \<^verbatim>\<open>prev_stage_tokens_repr\<close>.
\<close>

definition stage_step ::
  "stage \<Rightarrow> nat list \<Rightarrow> nat list option \<Rightarrow> error + (nat list \<times> nat list)" where
  "stage_step s stage_tokens prev =
     (case pack_shape stage_tokens of
        Inl e \<Rightarrow> Inl e
      | Inr packed \<Rightarrow>
          (case cat_dim2_shape [hd packed, 1, st_dim s] packed of
             Inl e \<Rightarrow> Inl e
           | Inr with_start \<Rightarrow>
               (case (case prev of
                        None \<Rightarrow> Inr with_start
                      | Some p \<Rightarrow>
                          (case pad_front_shape p of
                             Inl e \<Rightarrow> Inl e
                           | Inr p' \<Rightarrow> broadcast_shape with_start p')) of
                  Inl e \<Rightarrow> Inl e
                | Inr summed \<Rightarrow>
                    (case transformer_shape (st_depth s) summed of
                       Inl e \<Rightarrow> Inl e
                     | Inr attended \<Rightarrow>
                         (case unpack_shape (butlast (butlast stage_tokens)) attended of
                            Inl e \<Rightarrow> Inl e
                          | Inr attended' \<Rightarrow>
                              (case drop_last_pos_shape attended' of
                                 Inl e \<Rightarrow> Inl e
                               | Inr sliced \<Rightarrow>
                                   (case proj_shape (st_dim s) (st_proj s) sliced of
                                      Inl e \<Rightarrow> Inl e
                                    | Inr repr \<Rightarrow> Inr (attended', repr))))))))"

text \<open>
  The loop runs over the \<^verbatim>\<open>zip\<close> of the stages and the token tensors; \<^verbatim>\<open>attended\<close> is
  the value of the last pass (with no pass at all the name is unbound).
\<close>

fun stage_loop ::
  "stage list \<Rightarrow> nat list list \<Rightarrow> nat list option \<Rightarrow> nat list option \<Rightarrow> error + nat list"
where
  "stage_loop (s # ss) (tk # tks) prev attended =
     (case stage_step s tk prev of
        Inl e \<Rightarrow> Inl e
      | Inr (attended', repr) \<Rightarrow> stage_loop ss tks (Some repr) (Some attended'))"
| "stage_loop _ _ prev attended =
     (case attended of None \<Rightarrow> Inl NameError | Some a \<Rightarrow> Inr a)"

text \<open>
  The shape of \<^verbatim>\<open>self.to_logits(attended)\<close> for nested ids of the given shape.
\<close>

definition logits_shape :: "'a MegaByte \<Rightarrow> nat list \<Rightarrow> error + nat list" where
  "logits_shape m ids_sh =
     (case embed_loop True (token_embs m) ids_sh [] of
        Inl e \<Rightarrow> Inl e
      | Inr (tokens_at_stages, _) \<Rightarrow>
          (case stage_loop (model_stages m) tokens_at_stages None None of
             Inl e \<Rightarrow> Inl e
           | Inr attended \<Rightarrow> linear_shape (last (dim m)) (num_tokens m) attended))"

section \<open>The forward pass\<close>

subsection \<open>Preparing the ids\<close>

text \<open>
  \<^verbatim>\<open>
  ids = ids[:, :-1]
  ids[:, :-1] = ids[:, 1:]
  ids = torch.cat((ids, targets[:, -1:]), dim=-1)
  \<close>
  The first line takes a view of the caller's tensor, so the assignment of the second
  line writes into the caller's tensor. For a tensor of shape \<open>b # d0 # rest\<close> with
  \<open>R = prod rest\<close>, the view has \<open>d0 - 1\<close> positions along dimension 1; the assignment
  copies, for every batch row \<open>i\<close>, the \<open>(d0 - 2) * R\<close> elements from offset
  \<open>i * d0 * R + R\<close> on to offset \<open>i * d0 * R\<close> on. The copy is modelled element by
  element on the storage, in ascending order of the destination.
  (The tensor library's run-time check on overlapping memory is not modelled.)
\<close>

definition copy_indices :: "nat \<Rightarrow> nat \<Rightarrow> nat \<Rightarrow> nat list" where
  "copy_indices b d0 R =
     concat (map (\<lambda>i. map (\<lambda>p. i * (d0 * R) + p) [0..<(d0 - 2) * R]) [0..<b])"

definition shift_in_place :: "'a tensor \<Rightarrow> 'a tensor" where
  "shift_in_place t =
     (case shape t of
        b # d0 # rest \<Rightarrow>
          t\<lparr>elems := fold (\<lambda>k st. st[k := st ! (k + prod_list rest)])
                            (copy_indices b d0 (prod_list rest)) (elems t)\<rparr>
      | _ \<Rightarrow> t)"

text \<open>\<^verbatim>\<open>t[:, :-1]\<close>\<close>

definition drop_last_dim1 :: "'a tensor \<Rightarrow> error + 'a tensor" where
  "drop_last_dim1 t =
     (case shape t of
        b # d0 # rest \<Rightarrow>
          Inr \<lparr>shape = b # (d0 - 1) # rest,
               elems = concat (map (take ((d0 - 1) * prod_list rest))
                                   (rows_of (d0 * prod_list rest) (elems t)))\<rparr>
      | _ \<Rightarrow> Inl IndexError)"

text \<open>\<^verbatim>\<open>t[:, -1:]\<close>\<close>

definition last_dim1 :: "'a tensor \<Rightarrow> error + 'a tensor" where
  "last_dim1 t =
     (case shape t of
        b # d0 # rest \<Rightarrow>
          Inr \<lparr>shape = b # min d0 1 # rest,
               elems = concat (map (drop ((d0 - 1) * prod_list rest))
                                   (rows_of (d0 * prod_list rest) (elems t)))\<rparr>
      | _ \<Rightarrow> Inl IndexError)"

subsection \<open>Padding and nesting a flat sequence\<close>

text \<open>\<^verbatim>\<open>F.pad(ids, (0, padding), value=self.pad_id)\<close>\<close>

definition pad_last :: "nat \<Rightarrow> 'a \<Rightarrow> 'a tensor \<Rightarrow> 'a tensor" where
  "pad_last p v t =
     (let n = last (shape t) in
      \<lparr>shape = butlast (shape t) @ [n + p],
       elems = (if n = 0 then replicate (prod_list (butlast (shape t)) * p) v
                else concat (map (\<lambda>r. r @ replicate p v) (rows_of n (elems t))))\<rparr>)"

text \<open>
  \<^verbatim>\<open>ids.reshape(batch, -1, *rest)\<close>: the dimension written \<open>-1\<close> is inferred; the
  elements keep their order.
\<close>

definition reshape_infer :: "nat \<Rightarrow> nat list \<Rightarrow> 'a tensor \<Rightarrow> error + 'a tensor" where
  "reshape_infer b rest t =
     (let known = b * prod_list rest in
      if known = 0 then Inl RuntimeError
      else if numel t mod known \<noteq> 0 then Inl RuntimeError
      else Inr \<lparr>shape = b # (numel t div known) # rest, elems = elems t\<rparr>)"

text \<open>The branch \<^verbatim>\<open>if flattened_dims:\<close> of \<^verbatim>\<open>forward\<close>.\<close>

definition flat_to_nested :: "'a MegaByte \<Rightarrow> int tensor \<Rightarrow> error + int tensor" where
  "flat_to_nested m ids =
     (let seq_len = last (shape ids);
          multiple_of = reduce_mult (tl (max_seq_len m))
      in case remainder_to_mult seq_len multiple_of of
           Inl e \<Rightarrow> Inl e
         | Inr padding \<Rightarrow>
             reshape_infer (hd (shape ids)) (tl (max_seq_len m))
               (pad_last padding (pad_id m) ids))"

text \<open>
  \<^verbatim>\<open>
  assert prec_dims[0] <= self.max_seq_len[0]
  assert tuple(prec_dims[1:]) == tuple(self.max_seq_len[1:])
  \<close>
\<close>

definition check_dims :: "'a MegaByte \<Rightarrow> nat list \<Rightarrow> error + unit" where
  "check_dims m sh =
     (case sh of
        b # d0 # rest \<Rightarrow>
          (case max_seq_len m of
             [] \<Rightarrow> Inl IndexError
           | m0 # mrest \<Rightarrow>
               if \<not> d0 \<le> m0 then Inl AssertionError
               else if rest \<noteq> mrest then Inl AssertionError
               else Inr ())
      | _ \<Rightarrow> Inl IndexError)"

subsection \<open>The network\<close>

text \<open>
  The embedders raise \<^verbatim>\<open>IndexError\<close> on an id outside the vocabulary; then the stages
  run. The values of the result are those of the parameter \<open>net\<close>.
\<close>

definition network :: "'a MegaByte \<Rightarrow> int tensor \<Rightarrow> error + 'a tensor" where
  "network m ids =
     (if \<exists>x\<in>set (elems ids). x < 0 \<or> int (num_tokens m) \<le> x then Inl IndexError
      else
        (case logits_shape m (shape ids) of
           Inl e \<Rightarrow> Inl e
         | Inr lsh \<Rightarrow> Inr \<lparr>shape = lsh, elems = map (net m ids) [0..<prod_list lsh]\<rparr>))"

text \<open>
  \<^verbatim>\<open>forward_empty\<close>: every stage runs on its start token alone, plus the first
  position of the projected output of the stage before.
\<close>

definition take_pos1_shape :: "nat list \<Rightarrow> error + nat list" where
  "take_pos1_shape sh =
     (case rev sh of d # n # pre \<Rightarrow> Inr (rev pre @ [min n 1, d]) | _ \<Rightarrow> Inl IndexError)"

fun empty_loop ::
  "nat \<Rightarrow> stage list \<Rightarrow> nat list option \<Rightarrow> nat list option \<Rightarrow> error + nat list" where
  "empty_loop b [] prev tokens =
     (case tokens of None \<Rightarrow> Inl NameError | Some t \<Rightarrow> Inr t)"
| "empty_loop b (s # ss) prev tokens =
     (case (case prev of
              None \<Rightarrow> Inr [b, 1, st_dim s]
            | Some p \<Rightarrow>
                (case take_pos1_shape p of
                   Inl e \<Rightarrow> Inl e
                 | Inr p' \<Rightarrow> broadcast_shape [b, 1, st_dim s] p')) of
        Inl e \<Rightarrow> Inl e
      | Inr tk \<Rightarrow>
          (case transformer_shape (st_depth s) tk of
             Inl e \<Rightarrow> Inl e
           | Inr tk' \<Rightarrow>
               (case proj_shape (st_dim s) (st_proj s) tk' of
                  Inl e \<Rightarrow> Inl e
                | Inr repr \<Rightarrow> empty_loop b ss (Some repr) (Some tk'))))"

definition forward_empty :: "'a MegaByte \<Rightarrow> nat \<Rightarrow> error + 'a tensor" where
  "forward_empty m batch_size =
     (case empty_loop batch_size (model_stages m) None None of
        Inl e \<Rightarrow> Inl e
      | Inr tokens \<Rightarrow>
          (case linear_shape (last (dim m)) (num_tokens m) tokens of
             Inl e \<Rightarrow> Inl e
           | Inr lsh \<Rightarrow> Inr \<lparr>shape = lsh, elems = map (net_empty m) [0..<prod_list lsh]\<rparr>))"

subsection \<open>Laying out the logits\<close>

text \<open>
  \<^verbatim>\<open>logits[(slice(None), *((0,) * (logits.ndim - 2)), slice(None))]\<close>: of every batch
  row, the features at index \<open>0\<close> of every dimension in between.
\<close>

definition select_start :: "'a tensor \<Rightarrow> error + 'a tensor" where
  "select_start t =
     (case shape t of
        [] \<Rightarrow> Inl IndexError
      | b # rest \<Rightarrow>
          if rest = [] then Inl IndexError
          else if 0 \<in> set (butlast rest) then Inl IndexError
          else Inr \<lparr>shape = [b, last rest],
                    elems = concat (map (take (last rest))
                                        (rows_of (prod_list rest) (elems t)))\<rparr>)"

text \<open>\<^verbatim>\<open>rearrange(start_tokens, "b d -> b 1 d")\<close>\<close>

definition unsqueeze1 :: "'a tensor \<Rightarrow> error + 'a tensor" where
  "unsqueeze1 t =
     (case shape t of [b, d] \<Rightarrow> Inr \<lparr>shape = [b, 1, d], elems = elems t\<rparr>
      | _ \<Rightarrow> Inl RuntimeError)"

text \<open>\<^verbatim>\<open>logits[..., 1:, :]\<close>\<close>

definition drop_first_pos :: "'a tensor \<Rightarrow> error + 'a tensor" where
  "drop_first_pos t =
     (case rev (shape t) of
        V # n # pre \<Rightarrow>
          Inr \<lparr>shape = rev pre @ [n - 1, V],
               elems = concat (map (drop V) (rows_of (n * V) (elems t)))\<rparr>
      | _ \<Rightarrow> Inl IndexError)"

text \<open>\<^verbatim>\<open>rearrange(logits, "b ... c -> b (...) c")\<close>\<close>

definition flatten_mid :: "'a tensor \<Rightarrow> error + 'a tensor" where
  "flatten_mid t =
     (case shape t of
        [] \<Rightarrow> Inl RuntimeError
      | b # rest \<Rightarrow>
          if rest = [] then Inl RuntimeError
          else Inr \<lparr>shape = [b, prod_list (butlast rest), last rest], elems = elems t\<rparr>)"

text \<open>\<^verbatim>\<open>logits[:, :seq_len]\<close>\<close>

definition take_dim1 :: "nat \<Rightarrow> 'a tensor \<Rightarrow> error + 'a tensor" where
  "take_dim1 k t =
     (case shape t of
        b # d # rest \<Rightarrow>
          Inr \<lparr>shape = b # min k d # rest,
               elems = concat (map (take (k * prod_list rest))
                                   (rows_of (d * prod_list rest) (elems t)))\<rparr>
      | _ \<Rightarrow> Inl IndexError)"

text \<open>\<^verbatim>\<open>torch.cat((a, b), dim=-2)\<close> on tensors of three dimensions.\<close>

definition cat_dim2 :: "'a tensor \<Rightarrow> 'a tensor \<Rightarrow> error + 'a tensor" where
  "cat_dim2 a b =
     (case (shape a, shape b) of
        ([a0, a1, a2], [b0, b1, b2]) \<Rightarrow>
          if a0 = b0 \<and> a2 = b2 then
            Inr \<lparr>shape = [a0, a1 + b1, a2],
                 elems = (if a1 * a2 = 0 then elems b
                          else if b1 * b2 = 0 then elems a
                          else concat (map2 (@) (rows_of (a1 * a2) (elems a))
                                                (rows_of (b1 * b2) (elems b))))\<rparr>
          else Inl RuntimeError
      | _ \<Rightarrow> Inl RuntimeError)"

text \<open>\<^verbatim>\<open>rearrange(logits, "b n c -> b c n")\<close>\<close>

definition to_bcn :: "'a tensor \<Rightarrow> error + 'a tensor" where
  "to_bcn t =
     (case shape t of
        [b, n, c] \<Rightarrow>
          Inr \<lparr>shape = [b, c, n],
               elems = concat (map (\<lambda>blk. concat (map (\<lambda>ci. map (\<lambda>j. blk ! (j * c + ci)) [0..<n])
                                                       [0..<c]))
                                   (rows_of (n * c) (elems t)))\<rparr>
      | _ \<Rightarrow> Inl RuntimeError)"

text \<open>\<^verbatim>\<open>preds[..., :-1]\<close>\<close>

definition drop_last_col :: "'a tensor \<Rightarrow> error + 'a tensor" where
  "drop_last_col t =
     (case rev (shape t) of
        n # pre \<Rightarrow>
          Inr \<lparr>shape = rev pre @ [n - 1],
               elems = concat (map (take (n - 1)) (rows_of n (elems t)))\<rparr>
      | [] \<Rightarrow> Inl IndexError)"

text \<open>\<^verbatim>\<open>rearrange(ids, "b ... -> b (...)")\<close>\<close>

definition flatten_ids :: "'a tensor \<Rightarrow> error + 'a tensor" where
  "flatten_ids t =
     (case shape t of
        [] \<Rightarrow> Inl RuntimeError
      | b # rest \<Rightarrow> Inr \<lparr>shape = [b, prod_list rest], elems = elems t\<rparr>)"

subsection \<open>The loss\<close>

text \<open>
  \<^verbatim>\<open>F.cross_entropy(preds, labels, ignore_index=...)\<close> on predictions of shape
  \<open>(N, C, d)\<close> and labels of shape \<open>(N, d)\<close>, with the default mean reduction: the mean
  of the terms of the positions whose label is not the ignored one; with no such
  position the result is not a number. The term of one position is the parameter \<open>f\<close>,
  applied to the \<open>C\<close> predictions of the position and its label. A label outside
  \<open>[0, C)\<close> that is not ignored raises.
\<close>

datatype loss = NaN | Loss real

definition ce_pairs :: "'a tensor \<Rightarrow> int tensor \<Rightarrow> nat \<Rightarrow> nat \<Rightarrow> nat \<Rightarrow> ('a list \<times> int) list" where
  "ce_pairs preds labels N C d =
     concat (map (\<lambda>i. map (\<lambda>j. (map (\<lambda>c. elems preds ! ((i * C + c) * d + j)) [0..<C],
                                 elems labels ! (i * d + j)))
                           [0..<d])
                 [0..<N])"

definition cross_entropy ::
  "('a list \<Rightarrow> int \<Rightarrow> real) \<Rightarrow> int \<Rightarrow> 'a tensor \<Rightarrow> int tensor \<Rightarrow> error + loss" where
  "cross_entropy f ignore_index preds labels =
     (case (shape preds, shape labels) of
        ([N, C, d], [N', d']) \<Rightarrow>
          if N \<noteq> N' then Inl ValueError
          else if d \<noteq> d' then Inl RuntimeError
          else
            let kept = filter (\<lambda>(v, y). y \<noteq> ignore_index) (ce_pairs preds labels N C d) in
            if \<exists>(v, y)\<in>set kept. y < 0 \<or> int C \<le> y then Inl IndexError
            else if kept = [] then Inr NaN
            else Inr (Loss (sum_list (map (\<lambda>(v, y). f v y) kept) / real (length kept)))
      | _ \<Rightarrow> Inl RuntimeError)"

subsection \<open>The body of \<^verbatim>\<open>forward\<close>\<close>

datatype 'a fwd_result = Logits "'a tensor" | LogitsLoss "'a tensor" loss

text \<open>From \<^verbatim>\<open>logits = self.to_logits(attended)\<close> to the end of \<^verbatim>\<open>forward\<close>.\<close>

definition logits_and_loss ::
  "'a MegaByte \<Rightarrow> bool \<Rightarrow> nat \<Rightarrow> int tensor \<Rightarrow> 'a tensor \<Rightarrow> bool \<Rightarrow> error + 'a fwd_result"
where
  "logits_and_loss m flattened_dims seq_len ids logits return_loss =
     (case select_start logits of
        Inl e \<Rightarrow> Inl e
      | Inr st \<Rightarrow>
     (case unsqueeze1 st of
        Inl e \<Rightarrow> Inl e
      | Inr start_tokens \<Rightarrow>
     (case drop_first_pos logits of
        Inl e \<Rightarrow> Inl e
      | Inr logits1 \<Rightarrow>
          if \<not> return_loss then
            (if flattened_dims then
               (case flatten_mid logits1 of
                  Inl e \<Rightarrow> Inl e
                | Inr logits2 \<Rightarrow>
                    (case take_dim1 seq_len logits2 of
                       Inl e \<Rightarrow> Inl e
                     | Inr logits3 \<Rightarrow> Inr (Logits logits3)))
             else Inr (Logits logits1))
          else
            (case flatten_mid logits1 of
               Inl e \<Rightarrow> Inl e
             | Inr logits2 \<Rightarrow>
            (case cat_dim2 start_tokens logits2 of
               Inl e \<Rightarrow> Inl e
             | Inr logits3 \<Rightarrow>
            (case to_bcn logits3 of
               Inl e \<Rightarrow> Inl e
             | Inr preds \<Rightarrow>
            (case flatten_ids ids of
               Inl e \<Rightarrow> Inl e
             | Inr labels \<Rightarrow>
            (case drop_last_col preds of
               Inl e \<Rightarrow> Inl e
             | Inr preds' \<Rightarrow>
            (case cross_entropy (nll m) (pad_id m) preds' labels of
               Inl e \<Rightarrow> Inl e
             | Inr l \<Rightarrow> Inr (LogitsLoss logits3 l))))))))))"

text \<open>
  The first three lines of \<^verbatim>\<open>forward\<close>: the local \<^verbatim>\<open>ids\<close> is the view
  \<^verbatim>\<open>ids[:, :-1]\<close> of the caller's tensor after the assignment, with the last position of
  \<^verbatim>\<open>targets\<close> concatenated along the last dimension.
\<close>

definition prepare_ids :: "'a tensor \<Rightarrow> 'a tensor \<Rightarrow> error + 'a tensor" where
  "prepare_ids ids targets =
     (case drop_last_dim1 (shift_in_place ids) of
        Inl e \<Rightarrow> Inl e
      | Inr ids0 \<Rightarrow>
          (case last_dim1 targets of
             Inl e \<Rightarrow> Inl e
           | Inr last_target \<Rightarrow> cat_last ids0 last_target))"

text \<open>The rest of \<^verbatim>\<open>forward\<close>, from \<^verbatim>\<open>batch = ids.shape[0]\<close> on.\<close>

definition forward_body ::
  "'a MegaByte \<Rightarrow> int tensor \<Rightarrow> bool \<Rightarrow> error + 'a fwd_result" where
  "forward_body m ids return_loss =
     (let batch = hd (shape ids);
          flattened_dims = (length (shape ids) = 2)
      in
      if length (shape ids) \<noteq> 2 \<and> length (shape ids) \<noteq> stages m + 1 then Inl AssertionError
      else if numel ids = 0 then
        (case forward_empty m batch of Inl e \<Rightarrow> Inl e | Inr l \<Rightarrow> Inr (Logits l))
      else
        (case (if flattened_dims then flat_to_nested m ids else Inr ids) of
           Inl e \<Rightarrow> Inl e
         | Inr nested \<Rightarrow>
        (case check_dims m (shape nested) of
           Inl e \<Rightarrow> Inl e
         | Inr _ \<Rightarrow>
        (case network m nested of
           Inl e \<Rightarrow> Inl e
         | Inr logits \<Rightarrow>
             logits_and_loss m flattened_dims (last (shape ids)) nested logits return_loss))))"

text \<open>
  \<^verbatim>\<open>def forward(self, ids, targets, return_loss=True)\<close>. A call that does not pass
  \<^verbatim>\<open>targets\<close> (\<open>None\<close> here) raises \<^verbatim>\<open>TypeError\<close> before the body runs. The second
  component of the result is the caller's \<^verbatim>\<open>ids\<close> tensor after the call.
\<close>

definition forward ::
  "'a MegaByte \<Rightarrow> int tensor \<Rightarrow> int tensor option \<Rightarrow> bool
     \<Rightarrow> (error + 'a fwd_result) \<times> int tensor" where
  "forward m ids targets return_loss =
     (case targets of
        None \<Rightarrow> (Inl TypeError, ids)
      | Some tg \<Rightarrow>
          ((case prepare_ids ids tg of
              Inl e \<Rightarrow> Inl e
            | Inr ids' \<Rightarrow> forward_body m ids' return_loss),
           shift_in_place ids))"

section \<open>Generation\<close>

text \<open>\<^verbatim>\<open>t[:, -1]\<close>\<close>

definition index_last_pos :: "'a tensor \<Rightarrow> error + 'a tensor" where
  "index_last_pos t =
     (case shape t of
        b # n # rest \<Rightarrow>
          if n = 0 then Inl IndexError
          else Inr \<lparr>shape = b # rest,
                    elems = concat (map (drop ((n - 1) * prod_list rest))
                                        (rows_of (n * prod_list rest) (elems t)))\<rparr>
      | _ \<Rightarrow> Inl IndexError)"

text \<open>\<^verbatim>\<open>seq.reshape(batch, *self.max_seq_len)\<close>\<close>

definition reshape_to :: "nat list \<Rightarrow> 'a tensor \<Rightarrow> error + 'a tensor" where
  "reshape_to sh t =
     (if prod_list sh = numel t then Inr \<lparr>shape = sh, elems = elems t\<rparr> else Inl RuntimeError)"

text \<open>
  \<^verbatim>\<open>
  for _ in tqdm(range(total_seq_len - seq.shape[-1])):
      logits = self.forward(seq)[:, -1]
      logits = top_k(logits, thres=filter_thres)
      sampled = gumbel_sample(logits, dim=-1, temperature=temperature)
      seq = torch.cat((seq, rearrange(sampled, "b -> b 1")), dim=-1)
  \<close>
  The call \<^verbatim>\<open>self.forward(seq)\<close> passes no \<^verbatim>\<open>targets\<close> and leaves \<^verbatim>\<open>return_loss\<close> at
  its default \<^verbatim>\<open>True\<close>; indexing the pair that \<^verbatim>\<open>forward\<close> then returns with
  \<^verbatim>\<open>[:, -1]\<close> raises \<^verbatim>\<open>TypeError\<close>. Gumbel sampling draws random numbers; it is the
  parameter \<open>sample\<close>, which gives the sampled id of a batch row from the number of
  passes still to run, the row number, the filtered logits of the row and the
  temperature.
\<close>

fun generate_loop ::
  "('a::linorder) MegaByte \<Rightarrow> (nat \<Rightarrow> nat \<Rightarrow> 'a option list \<Rightarrow> real \<Rightarrow> int) \<Rightarrow> real \<Rightarrow> real
     \<Rightarrow> nat \<Rightarrow> int tensor \<Rightarrow> error + int tensor" where
  "generate_loop m sample filter_thres temperature 0 seq = Inr seq"
| "generate_loop m sample filter_thres temperature (Suc n) seq =
     (case forward m seq None True of
        (Inl e, _) \<Rightarrow> Inl e
      | (Inr (LogitsLoss _ _), _) \<Rightarrow> Inl TypeError
      | (Inr (Logits lg), seq') \<Rightarrow>
          (case index_last_pos lg of
             Inl e \<Rightarrow> Inl e
           | Inr logits \<Rightarrow>
               (case top_k logits filter_thres of
                  Inl e \<Rightarrow> Inl e
                | Inr filtered \<Rightarrow>
                    let rows = rows_of (last (shape filtered)) (elems filtered);
                        sampled = map (\<lambda>i. sample n i (rows ! i) temperature)
                                      [0..<hd (shape filtered)]
                    in
                    (case cat_last seq' \<lparr>shape = [length sampled, 1], elems = sampled\<rparr> of
                       Inl e \<Rightarrow> Inl e
                     | Inr seq'' \<Rightarrow>
                         generate_loop m sample filter_thres temperature n seq''))))"

text \<open>
  \<^verbatim>\<open>def generate(self, prime=None, filter_thres=0.9, temperature=1.0, default_batch_size=1)\<close>
\<close>

definition generate ::
  "('a::linorder) MegaByte \<Rightarrow> (nat \<Rightarrow> nat \<Rightarrow> 'a option list \<Rightarrow> real \<Rightarrow> int)
     \<Rightarrow> int tensor option \<Rightarrow> real \<Rightarrow> real \<Rightarrow> nat \<Rightarrow> error + int tensor" where
  "generate m sample prime filter_thres temperature default_batch_size =
     (let total_seq_len = reduce_mult (max_seq_len m);
          seq = (case prime of
                   None \<Rightarrow> \<lparr>shape = [default_batch_size, 0], elems = []\<rparr>
                 | Some p \<Rightarrow> p)
      in
      (case shape seq of
         [] \<Rightarrow> Inl IndexError
       | batch # _ \<Rightarrow>
           (case generate_loop m sample filter_thres temperature
                   (total_seq_len - last (shape seq)) seq of
              Inl e \<Rightarrow> Inl e
            | Inr seq' \<Rightarrow> reshape_to (batch # max_seq_len m) seq')))"

section \<open>Two concrete models\<close>

text \<open>
  The default configuration of \<^verbatim>\<open>MegaByteConfig\<close>, and a small model of two stages with
  a vocabulary of five tokens (the last one the pad id). Their numeric kernels are
  stand-ins: the logit at a position is the number of the position, and the loss term of
  a position is the logit of its label.
\<close>

definition default_model :: "int MegaByte" where
  "default_model =
     \<lparr>num_tokens = 50305, dim = [768, 256], depth = [10, 2], max_seq_len = [256, 4],
      pad_id = 50304,
      net = (\<lambda>ids k. int k), net_empty = (\<lambda>k. int k),
      nll = (\<lambda>v y. real_of_int (v ! nat y))\<rparr>"

definition small_model :: "int MegaByte" where
  "small_model =
     \<lparr>num_tokens = 5, dim = [2, 2], depth = [1, 1], max_seq_len = [2, 2],
      pad_id = 4,
      net = (\<lambda>ids k. int k), net_empty = (\<lambda>k. int k),
      nll = (\<lambda>v y. real_of_int (v ! nat y))\<rparr>"

definition first_token_sampler :: "nat \<Rightarrow> nat \<Rightarrow> int option list \<Rightarrow> real \<Rightarrow> int" where
  "first_token_sampler n i row temperature = 0"

section \<open>The shapes the stages are expected to see\<close>


text \<open>
  The token shapes stage by stage, coarsest first: a stage with leading dimensions
  \<open>pre\<close>, sequence length \<open>n\<close> and dimension \<open>h\<close> has tokens of shape \<open>pre @ [n, h]\<close>.
\<close>

fun stage_tokens :: "nat list \<Rightarrow> nat \<Rightarrow> nat list \<Rightarrow> nat list \<Rightarrow> nat list list" where
  "stage_tokens pre n [] nls = []"
| "stage_tokens pre n (h # dims) [] = [pre @ [n, h]]"
| "stage_tokens pre n (h # dims) (nl # nls) = (pre @ [n, h]) # stage_tokens (pre @ [n]) nl dims nls"


section \<open>Valid models and inputs\<close>




section \<open>The projection to the next stage, on values\<close>

text \<open>\<^verbatim>\<open>attended[..., :-1, :]\<close>\<close>

definition drop_last_pos :: "'a tensor \<Rightarrow> error + 'a tensor" where
  "drop_last_pos t =
     (case rev (shape t) of
        d # n # pre \<Rightarrow>
          Inr \<lparr>shape = rev pre @ [n - 1, d],
               elems = concat (map (take ((n - 1) * d)) (rows_of (n * d) (elems t)))\<rparr>
      | _ \<Rightarrow> Inl IndexError)"

text \<open>
  \<^verbatim>\<open>nn.Linear(n_in, n_out)\<close>, applied to every feature vector. Its weights are floating
  point numbers: \<open>lin v c\<close> is output feature \<open>c\<close> of the layer on the feature vector \<open>v\<close>.
\<close>

definition apply_linear ::
  "nat \<Rightarrow> nat \<Rightarrow> ('a list \<Rightarrow> nat \<Rightarrow> 'a) \<Rightarrow> 'a tensor \<Rightarrow> error + 'a tensor" where
  "apply_linear n_in n_out lin t =
     (if shape t \<noteq> [] \<and> last (shape t) = n_in then
        Inr \<lparr>shape = butlast (shape t) @ [n_out],
             elems = concat (map (\<lambda>v. map (lin v) [0..<n_out])
                       (if n_in = 0 then replicate (prod_list (butlast (shape t))) []
                        else rows_of n_in (elems t)))\<rparr>
      else Inl RuntimeError)"

text \<open>\<^verbatim>\<open>Rearrange("b m (n d) -> (b m) n d", n=next_seq_len)\<close>\<close>

definition split_positions :: "nat \<Rightarrow> 'a tensor \<Rightarrow> error + 'a tensor" where
  "split_positions n t =
     (case shape t of
        [b, m, nd] \<Rightarrow>
          if n = 0 \<or> nd mod n \<noteq> 0 then Inl RuntimeError
          else Inr \<lparr>shape = [b * m, n, nd div n], elems = elems t\<rparr>
      | _ \<Rightarrow> Inl RuntimeError)"

text \<open>
  The module \<^verbatim>\<open>proj\<close> of a stage: \<^verbatim>\<open>nn.Identity()\<close> for the finest stage, otherwise
  the \<^verbatim>\<open>nn.Sequential\<close> of \<^verbatim>\<open>Rearrange("b ... d -> b (...) d")\<close>, the linear layer and
  the rearrangement into the positions of the next stage.
\<close>

definition proj ::
  "nat \<Rightarrow> (nat \<times> nat) option \<Rightarrow> ('a list \<Rightarrow> nat \<Rightarrow> 'a) \<Rightarrow> 'a tensor \<Rightarrow> error + 'a tensor" where
  "proj h_dim p lin t =
     (case p of
        None \<Rightarrow> Inr t
      | Some (next_h_dim, next_seq_len) \<Rightarrow>
          (case flatten_mid t of
             Inl e \<Rightarrow> Inl e
           | Inr t1 \<Rightarrow>
               (case apply_linear h_dim (next_h_dim * next_seq_len) lin t1 of
                  Inl e \<Rightarrow> Inl e
                | Inr t2 \<Rightarrow> split_positions next_seq_len t2)))"

text \<open>\<^verbatim>\<open>prev_stage_tokens_repr = proj(attended[..., :-1, :])\<close>\<close>

definition project_stage ::
  "stage \<Rightarrow> ('a list \<Rightarrow> nat \<Rightarrow> 'a) \<Rightarrow> 'a tensor \<Rightarrow> error + 'a tensor" where
  "project_stage s lin attended =
     (case drop_last_pos attended of
        Inl e \<Rightarrow> Inl e
      | Inr sliced \<Rightarrow> proj (st_dim s) (st_proj s) lin sliced)"

text \<open>A stand-in for a linear layer: every output feature is the first input feature.\<close>

definition first_feature :: "int list \<Rightarrow> nat \<Rightarrow> int" where
  "first_feature v c = v ! 0"

section \<open>Facts about blocks of a row-major list\<close>

lemma length_rows_of: "length (rows_of k xs) = length xs div k"
  by (simp add: rows_of_def)

lemma rows_of_nth:
  "i < length xs div k \<Longrightarrow> rows_of k xs ! i = take k (drop (i * k) xs)"
  by (simp add: rows_of_def)

lemma block_index_bound:
  fixes i k j n :: nat
  assumes "i < n div k" and "j < k"
  shows "i * k + j < n"
proof -
  have "Suc i \<le> n div k" using assms(1) by simp
  then have "Suc i * k \<le> (n div k) * k" by (rule mult_le_mono1)
  also have "\<dots> \<le> n" by simp
  finally show ?thesis using assms(2) by simp
qed

lemma length_rows_of_nth:
  assumes "i < length xs div k"
  shows "length (rows_of k xs ! i) = k"
proof (cases "k = 0")
  case True
  then show ?thesis using assms by simp
next
  case False
  then have "i * k + (k - 1) < length xs"
    using assms by (intro block_index_bound) auto
  then show ?thesis using assms False by (simp add: rows_of_nth)
qed

lemma rows_of_uniform: "r \<in> set (rows_of k xs) \<Longrightarrow> length r = k"
  by (metis in_set_conv_nth length_rows_of length_rows_of_nth)

lemma rows_of_nth_nth:
  assumes "i < length xs div k" and "j < k"
  shows "rows_of k xs ! i ! j = xs ! (i * k + j)"
  using assms block_index_bound [OF assms] by (simp add: rows_of_nth)

lemma length_concat_uniform:
  "\<forall>r\<in>set rs. length r = k \<Longrightarrow> length (concat rs) = length rs * k"
  by (induction rs) auto

lemma nth_concat_uniform:
  "\<forall>r\<in>set rs. length r = k \<Longrightarrow> i < length rs \<Longrightarrow> j < k \<Longrightarrow>
     concat rs ! (i * k + j) = rs ! i ! j"
proof (induction rs arbitrary: i)
  case Nil
  then show ?case by simp
next
  case (Cons r rs)
  show ?case
  proof (cases i)
    case 0
    then show ?thesis using Cons.prems by (simp add: nth_append)
  next
    case (Suc i')
    then have "concat rs ! (i' * k + j) = rs ! i' ! j"
      using Cons.prems by (intro Cons.IH) auto
    moreover have "Suc i' * k + j = length r + (i' * k + j)"
      using Cons.prems by simp
    ultimately show ?thesis using Suc by (simp add: nth_append del: mult_Suc)
  qed
qed

section \<open>Token shift: what it computes\<close>

lemma shifted_block_nth:
  fixes B :: "'a::zero list"
  assumes lenB: "length B = P * (n * d)" and "0 < d" and "0 < n"
    and "r < P * n" and "g < d"
  shows "concat (map (\<lambda>m. replicate d 0 @ take ((n - 1) * d) m) (rows_of (n * d) B)) ! (r * d + g)
           = (if r mod n = 0 then 0 else B ! ((r - 1) * d + g))"
proof -
  let ?G = "\<lambda>m. replicate d (0::'a) @ take ((n - 1) * d) m"
  let ?RB = "rows_of (n * d) B"
  define m s where "m = r div n" and "s = r mod n"
  have r: "r = m * n + s" and s: "s < n" using \<open>0 < n\<close> by (simp_all add: m_def s_def)
  have m: "m < P" using \<open>r < P * n\<close> \<open>0 < n\<close> unfolding m_def
    by (simp add: less_mult_imp_div_less)
  have nd: "0 < n * d" using assms by simp
  have lenRB: "length ?RB = P" using lenB nd by (simp add: length_rows_of)
  have mlt: "m < length B div (n * d)" using m lenB nd by simp
  have unif: "\<forall>x\<in>set (map ?G ?RB). length x = n * d"
  proof
    fix x assume "x \<in> set (map ?G ?RB)"
    then obtain y where y: "y \<in> set ?RB" and x: "x = ?G y" by auto
    have "length y = n * d" using y by (rule rows_of_uniform)
    then have "length x = d + (n - 1) * d" using x by simp
    also have "\<dots> = n * d" using \<open>0 < n\<close> by (cases n) simp_all
    finally show "length x = n * d" .
  qed
  have sdg: "s * d + g < n * d"
  proof -
    have "Suc s * d \<le> n * d" using s by (intro mult_le_mono1) simp
    then show ?thesis using \<open>g < d\<close> by simp
  qed
  have idx: "r * d + g = m * (n * d) + (s * d + g)"
    by (simp add: r algebra_simps)
  have "concat (map ?G ?RB) ! (r * d + g) = map ?G ?RB ! m ! (s * d + g)"
    unfolding idx using unif lenRB m sdg by (intro nth_concat_uniform) simp_all
  also have "\<dots> = ?G (?RB ! m) ! (s * d + g)" using lenRB m by simp
  also have "\<dots> = (if s = 0 then 0 else B ! ((r - 1) * d + g))"
  proof (cases "s = 0")
    case True
    then show ?thesis using \<open>g < d\<close> by (simp add: nth_append)
  next
    case False
    then obtain s' where s': "s = Suc s'" by (cases s) auto
    have lt: "s' * d + g < (n - 1) * d"
    proof -
      have "Suc s' \<le> n - 1" using s s' by simp
      then have "Suc s' * d \<le> (n - 1) * d" by (rule mult_le_mono1)
      then show ?thesis using \<open>g < d\<close> by simp
    qed
    have lt2: "s' * d + g < n * d" using sdg s' by simp
    have "?G (?RB ! m) ! (s * d + g) = take ((n - 1) * d) (?RB ! m) ! (s' * d + g)"
      using s' by (simp add: nth_append)
    also have "\<dots> = ?RB ! m ! (s' * d + g)" using lt by simp
    also have "\<dots> = B ! (m * (n * d) + (s' * d + g))"
      using mlt lt2 by (rule rows_of_nth_nth)
    also have "m * (n * d) + (s' * d + g) = (r - 1) * d + g"
      by (simp add: r s' algebra_simps)
    finally show ?thesis using False by simp
  qed
  finally show ?thesis by (simp add: s_def)
qed

lemma token_shift_result:
  fixes t :: "'a::zero tensor"
  assumes sh: "shape t = pre @ [n, D]" and wf: "wf_tensor t" and D: "2 \<le> D" and n: "1 \<le> n"
  shows "token_shift t =
     Inr \<lparr>shape = pre @ [n, D],
          elems = concat (map2 (@)
            (rows_of ((D + 1) div 2) (concat (map (take ((D + 1) div 2)) (rows_of D (elems t)))))
            (rows_of (D - (D + 1) div 2)
               (concat (map (\<lambda>m. replicate (D - (D + 1) div 2) 0 @ take ((n - 1) * (D - (D + 1) div 2)) m)
                  (rows_of (n * (D - (D + 1) div 2))
                     (concat (map (drop ((D + 1) div 2)) (rows_of D (elems t)))))))))\<rparr>"
proof -
  define c where "c = (D + 1) div 2"
  have c: "0 < c" "c < D" using D by (simp_all add: c_def)
  have bl: "\<And>x. butlast (pre @ [n, x]) = pre @ [n]" by (simp add: butlast_append)
  have ch: "chunk2 t = Inr [\<lparr>shape = pre @ [n, c], elems = concat (map (take c) (rows_of D (elems t)))\<rparr>,
               \<lparr>shape = pre @ [n, D - c], elems = concat (map (drop c) (rows_of D (elems t)))\<rparr>]"
    using c D by (simp add: chunk2_def sh bl Let_def c_def)
  have ps: "pad_shift \<lparr>shape = pre @ [n, D - c], elems = concat (map (drop c) (rows_of D (elems t)))\<rparr>
     = Inr \<lparr>shape = pre @ [n, D - c],
            elems = concat (map (\<lambda>m. replicate (D - c) 0 @ take ((n - 1) * (D - c)) m)
                     (rows_of (n * (D - c)) (concat (map (drop c) (rows_of D (elems t))))))\<rparr>"
    using n by (simp add: pad_shift_def)
  show ?thesis
    unfolding token_shift_def ch c_def [symmetric]
    using c by (simp add: ps cat_last_def bl Let_def)
qed

text \<open>
  Claim C6, as the code has it: on a well-formed tensor whose last (feature) dimension
  \<open>D\<close> is at least 2 and whose sequence dimension \<open>n\<close> (the one before it) is not
  empty, \<open>token_shift\<close> returns a tensor of the same shape; the first \<open>ceil(D / 2)\<close>
  features of every position are unchanged; the remaining features at sequence position
  \<open>s > 0\<close> are the input's features at position \<open>s - 1\<close>, and at position 0 they are
  zero. Row \<open>r\<close> of the feature rows is sequence position \<open>r mod n\<close> of block
  \<open>r div n\<close>.
\<close>

theorem token_shift_elems:
  fixes t :: "'a::zero tensor"
  assumes sh: "shape t = pre @ [n, D]" and wf: "wf_tensor t" and D: "2 \<le> D" and n: "1 \<le> n"
  shows "\<exists>t'. token_shift t = Inr t' \<and> shape t' = shape t \<and>
     (\<forall>r < prod_list pre * n. \<forall>f < D.
        elems t' ! (r * D + f) =
          (if f < (D + 1) div 2 then elems t ! (r * D + f)
           else if r mod n = 0 then 0
           else elems t ! ((r - 1) * D + f)))"
proof -
  define c where "c = (D + 1) div 2"
  define d where "d = D - c"
  define P where "P = prod_list pre"
  define E where "E = elems t"
  define R where "R = rows_of D E"
  define A where "A = concat (map (take c) R)"
  define B where "B = concat (map (drop c) R)"
  define S where "S = concat (map (\<lambda>m. replicate d (0::'a) @ take ((n - 1) * d) m) (rows_of (n * d) B))"
  define Z where "Z = map2 (@) (rows_of c A) (rows_of d S)"
  have c: "0 < c" "c < D" and d: "0 < d" "c + d = D" using D by (simp_all add: c_def d_def)
  have lenE: "length E = P * n * D" using wf sh by (simp add: wf_tensor_def E_def P_def)
  have lenR: "length R = P * n" using lenE c by (simp add: R_def length_rows_of)
  have Runif: "\<forall>x\<in>set R. length x = D" by (simp add: R_def rows_of_uniform)
  have Aunif: "\<forall>x\<in>set (map (take c) R). length x = c" using Runif c by auto
  have Bunif: "\<forall>x\<in>set (map (drop c) R). length x = d" using Runif by (auto simp: d_def)
  have lenA: "length A = P * n * c" unfolding A_def using length_concat_uniform [OF Aunif] lenR by simp
  have lenB: "length B = P * (n * d)" unfolding B_def using length_concat_uniform [OF Bunif] lenR by simp
  have Sunif: "\<forall>x\<in>set (map (\<lambda>m. replicate d (0::'a) @ take ((n - 1) * d) m) (rows_of (n * d) B)). length x = n * d"
  proof
    fix x assume "x \<in> set (map (\<lambda>m. replicate d (0::'a) @ take ((n - 1) * d) m) (rows_of (n * d) B))"
    then obtain y where y: "y \<in> set (rows_of (n * d) B)" and x: "x = replicate d 0 @ take ((n - 1) * d) y" by auto
    have "length y = n * d" using y by (rule rows_of_uniform)
    then have "length x = d + (n - 1) * d" using x by simp
    also have "\<dots> = n * d" using n by (cases n) simp_all
    finally show "length x = n * d" .
  qed
  have lenS: "length S = P * n * d"
    unfolding S_def using length_concat_uniform [OF Sunif] lenB d n by (simp add: length_rows_of)
  have lenRA: "length (rows_of c A) = P * n" using lenA c by (simp add: length_rows_of)
  have lenRS: "length (rows_of d S) = P * n" using lenS d by (simp add: length_rows_of)
  have lenZ: "length Z = P * n" by (simp add: Z_def lenRA lenRS)
  have Zunif: "\<forall>x\<in>set Z. length x = D"
  proof
    fix x assume "x \<in> set Z"
    then obtain a b where ab: "(a, b) \<in> set (zip (rows_of c A) (rows_of d S))" and x: "x = a @ b"
      unfolding Z_def by auto
    have "a \<in> set (rows_of c A)" and "b \<in> set (rows_of d S)"
      using ab by (auto dest: set_zip_leftD set_zip_rightD)
    then show "length x = D" using d x by (simp add: rows_of_uniform)
  qed
  have res: "token_shift t = Inr \<lparr>shape = pre @ [n, D], elems = concat Z\<rparr>"
    using token_shift_result [OF sh wf D n]
    by (simp add: Z_def S_def B_def A_def R_def E_def d_def c_def)
  have el: "concat Z ! (r * D + f) =
          (if f < c then E ! (r * D + f) else if r mod n = 0 then 0 else E ! ((r - 1) * D + f))"
    if r: "r < P * n" and f: "f < D" for r f
  proof -
    have rA: "r < length A div c" and rS: "r < length S div d" and rE: "r < length E div D"
      using r lenA lenS lenE c d by simp_all
    have "concat Z ! (r * D + f) = Z ! r ! f"
      using Zunif lenZ r f by (intro nth_concat_uniform) simp_all
    also have "Z ! r = rows_of c A ! r @ rows_of d S ! r"
      using r lenRA lenRS by (simp add: Z_def)
    finally have zf: "concat Z ! (r * D + f) = (rows_of c A ! r @ rows_of d S ! r) ! f" .
    have lra: "length (rows_of c A ! r) = c" using rA by (rule length_rows_of_nth)
    show ?thesis
    proof (cases "f < c")
      case True
      have "concat Z ! (r * D + f) = rows_of c A ! r ! f" using zf True lra by (simp add: nth_append)
      also have "\<dots> = A ! (r * c + f)" using rA True by (rule rows_of_nth_nth)
      also have "\<dots> = map (take c) R ! r ! f"
        unfolding A_def using Aunif lenR r True by (intro nth_concat_uniform) simp_all
      also have "\<dots> = R ! r ! f" using lenR r True by simp
      also have "\<dots> = E ! (r * D + f)" unfolding R_def using rE f by (rule rows_of_nth_nth)
      finally show ?thesis using True by simp
    next
      case False
      define g where "g = f - c"
      have g: "g < d" "f = c + g" using False f d by (simp_all add: g_def)
      have "concat Z ! (r * D + f) = rows_of d S ! r ! g" using zf False lra by (simp add: nth_append g_def)
      also have "\<dots> = S ! (r * d + g)" using rS g(1) by (rule rows_of_nth_nth)
      also have "\<dots> = (if r mod n = 0 then 0 else B ! ((r - 1) * d + g))"
        unfolding S_def using lenB d(1) n r g(1) by (intro shifted_block_nth) simp_all
      finally have step: "concat Z ! (r * D + f) = (if r mod n = 0 then 0 else B ! ((r - 1) * d + g))" .
      show ?thesis
      proof (cases "r mod n = 0")
        case True
        then show ?thesis using step False by simp
      next
        case nz: False
        then have r0: "r \<noteq> 0" by (cases "r = 0") simp_all
        then have r1: "r - 1 < P * n" using r by simp
        have "B ! ((r - 1) * d + g) = map (drop c) R ! (r - 1) ! g"
          unfolding B_def using Bunif lenR r1 g(1) by (intro nth_concat_uniform) simp_all
        also have "\<dots> = drop c (R ! (r - 1)) ! g" using lenR r1 by simp
        also have "\<dots> = R ! (r - 1) ! (c + g)"
        proof -
          have "length (R ! (r - 1)) = D" using Runif lenR r1 by simp
          then show ?thesis using g d by simp
        qed
        also have "\<dots> = E ! ((r - 1) * D + (c + g))"
          unfolding R_def using r1 lenE c g d by (intro rows_of_nth_nth) simp_all
        finally show ?thesis using step nz False g by simp
      qed
    qed
  qed
  show ?thesis
    using res el by (simp add: sh c_def E_def P_def)
qed

theorem token_shift_elems_witness:
  "\<exists>t'. token_shift \<lparr>shape = [2, 2], elems = [1, 2, 3, 4 :: int]\<rparr> = Inr t' \<and>
        shape t' = [2, 2] \<and> elems t' ! 0 = 1 \<and> elems t' ! 1 = 0 \<and>
        elems t' ! 2 = 3 \<and> elems t' ! 3 = 2"
proof -
  let ?t = "\<lparr>shape = [2, 2], elems = [1, 2, 3, 4 :: int]\<rparr>"
  have sh: "shape ?t = [] @ [2, 2]" by simp
  have wf: "wf_tensor ?t" by (simp add: wf_tensor_def)
  from token_shift_elems [OF sh wf]
  obtain t' where t': "token_shift ?t = Inr t'" "shape t' = shape ?t"
    and el: "\<forall>r < prod_list [] * 2. \<forall>f < 2.
        elems t' ! (r * 2 + f) =
          (if f < (2 + 1) div 2 then elems ?t ! (r * 2 + f)
           else if r mod 2 = 0 then 0
           else elems ?t ! ((r - 1) * 2 + f))"
    by auto
  have "elems t' ! 0 = 1" using el [rule_format, of 0 0] by simp
  moreover have "elems t' ! 1 = 0" using el [rule_format, of 0 1] by simp
  moreover have "elems t' ! 2 = 3" using el [rule_format, of 1 0] by simp
  moreover have "elems t' ! 3 = 2" using el [rule_format, of 1 1] by simp
  ultimately show ?thesis using t' by simp
qed

text \<open>
  The claim as stated, for every input tensor, fails on a feature dimension of size 1:
  \<^verbatim>\<open>chunk\<close> returns one chunk and the unpacking into two names raises.
\<close>

theorem token_shift_one_feature_raises:
  "token_shift \<lparr>shape = [2, 1], elems = [1, 2 :: int]\<rparr> = Inl ValueError"
  by (simp add: token_shift_def chunk2_def Let_def)

section \<open>Top-k filtering: what it keeps\<close>













section \<open>Generation: the call of the forward pass\<close>

lemma forward_without_targets:
  "forward m seq None return_loss = (Inl TypeError, seq)"
  by (simp add: forward_def)

lemma generate_loop_raises:
  "0 < n \<Longrightarrow> generate_loop m sample filter_thres temperature n seq = Inl TypeError"
  by (cases n) (simp_all add: forward_without_targets)

lemma generate_no_prime_raises:
  assumes "0 < reduce_mult (max_seq_len m)"
  shows "generate m sample None filter_thres temperature default_batch_size = Inl TypeError"
  using assms by (simp add: generate_def Let_def generate_loop_raises)


text \<open>
  Claim C1 on the default configuration and the default arguments of \<^verbatim>\<open>generate\<close>:
  the first pass of the loop calls \<^verbatim>\<open>self.forward(seq)\<close> without the required
  \<^verbatim>\<open>targets\<close>, so the call raises \<^verbatim>\<open>TypeError\<close> and no token tensor is returned.
\<close>

theorem generate_default_raises:
  "generate default_model first_token_sampler None (9 / 10) 1 1 = Inl TypeError"
proof -
  have "0 < reduce_mult (max_seq_len default_model)"
    by (simp add: default_model_def reduce_mult_def)
  then show ?thesis by (rule generate_no_prime_raises)
qed

section \<open>The assignment through the view\<close>

lemma fold_copy_length:
  "length (fold (\<lambda>k st. st[k := st ! (k + R)]) ks st) = length st"
  by (induction ks arbitrary: st) simp_all





lemma shift_in_place_shape: "shape (shift_in_place t) = shape t"
  by (simp add: shift_in_place_def split: list.splits)

lemma shift_in_place_length: "length (elems (shift_in_place t)) = length (elems t)"
  by (simp add: shift_in_place_def fold_copy_length split: list.splits)

lemma shift_in_place_wf: "wf_tensor (shift_in_place t) = wf_tensor t"
  by (simp add: wf_tensor_def shift_in_place_shape shift_in_place_length)


section \<open>What the caller sees of its ids afterwards\<close>







section \<open>The ids the network and the loss see\<close>

text \<open>
  Claim C4 at a concrete input: for \<^verbatim>\<open>ids = [[1, 2, 3]]\<close> and \<^verbatim>\<open>targets = [[2, 3, 0]]\<close>
  the claim gives the labels \<^verbatim>\<open>[2, 3, 0]\<close> (the ids shifted left by one, then the last
  target). The code first cuts the last column off and only then shifts, so the value
  \<^verbatim>\<open>ids[T-1] = 3\<close> is lost and position \<open>T-2\<close> keeps \<^verbatim>\<open>ids[T-2] = 2\<close>.
\<close>

theorem prepare_ids_loses_last_id:
  "prepare_ids \<lparr>shape = [1, 3], elems = [1, 2, 3 :: int]\<rparr> \<lparr>shape = [1, 3], elems = [2, 3, 0]\<rparr>
     = Inr \<lparr>shape = [1, 3], elems = [2, 2, 0]\<rparr>"
  by (simp add: prepare_ids_def shift_in_place_def copy_indices_def drop_last_dim1_def
      last_dim1_def cat_last_def rows_of_def Let_def)

text \<open>
  The same input through the whole forward pass of the small model, whose loss term of
  a position is the logit of its label: the loss is the mean over the labels
  \<^verbatim>\<open>[2, 2, 0]\<close> (the fourth label is padding), \<open>(2 + 7 + 10) / 3\<close>, where the labels
  \<^verbatim>\<open>[2, 3, 0]\<close> would give \<open>(2 + 8 + 10) / 3\<close>.
\<close>

lemma forward_small_loss:
  "fst (forward small_model \<lparr>shape = [1, 3], elems = [1, 2, 3]\<rparr>
          (Some \<lparr>shape = [1, 3], elems = [2, 3, 0]\<rparr>) True)
     = Inr (LogitsLoss
        \<lparr>shape = [1, 5, 5],
         elems = [0, 1, 2, 3, 4, 5, 6, 7, 8, 9, 10, 11, 12, 13, 14, 20, 21, 22,
                  23, 24, 25, 26, 27, 28, 29]\<rparr>
        (Loss (19 / 3)))"
  by code_simp

section \<open>Nested inputs\<close>

lemma prepare_ids_nested_raises:
  assumes ids: "shape ids = b # d0 # r # rest" and d0: "3 \<le> d0"
    and tg: "shape targets = b' # t0 # trest"
  shows "prepare_ids ids targets = Inl RuntimeError"
proof -
  have s1: "shape (shift_in_place ids) = b # d0 # r # rest"
    by (simp add: shift_in_place_shape ids)
  obtain ids0 where d: "drop_last_dim1 (shift_in_place ids) = Inr ids0"
    and sh0: "shape ids0 = b # (d0 - 1) # r # rest"
    by (simp add: drop_last_dim1_def s1)
  obtain lt where l: "last_dim1 targets = Inr lt" and shl: "shape lt = b' # min t0 1 # trest"
    by (simp add: last_dim1_def tg)
  have ne: "butlast (shape ids0) \<noteq> butlast (shape lt)"
  proof (cases trest)
    case Nil
    then show ?thesis by (simp add: sh0 shl)
  next
    case (Cons x xs)
    have "d0 - 1 \<noteq> min t0 1" using d0 by simp
    then show ?thesis by (simp add: sh0 shl Cons)
  qed
  have "cat_last ids0 lt = Inl RuntimeError"
    using ne by (simp add: cat_last_def sh0 shl)
  then show ?thesis by (simp add: prepare_ids_def d l)
qed

text \<open>
  Claim C8 at a concrete input: under the default configuration
  (\<^verbatim>\<open>max_seq_len = (256, 4)\<close>) a nested input of shape \<open>(1, 256, 4)\<close>, with targets of
  the same shape, has the rank and the dimensions that the assertions of \<^verbatim>\<open>forward\<close>
  accept. The three lines in front of the assertions cut it to \<open>(1, 255, 4)\<close> and
  concatenate \<^verbatim>\<open>targets[:, -1:]\<close> of shape \<open>(1, 1, 4)\<close> along the last dimension, which
  raises.
\<close>

theorem forward_nested_full_raises:
  "fst (forward default_model \<lparr>shape = [1, 256, 4], elems = replicate 1024 0\<rparr>
          (Some \<lparr>shape = [1, 256, 4], elems = replicate 1024 0\<rparr>) False)
     = Inl RuntimeError"
proof -
  have "prepare_ids \<lparr>shape = [1, 256, 4], elems = replicate 1024 (0::int)\<rparr>
          \<lparr>shape = [1, 256, 4], elems = replicate 1024 0\<rparr> = Inl RuntimeError"
    by (rule prepare_ids_nested_raises [where b = 1 and ?d0.0 = 256 and r = 4 and rest = "[]"
          and b' = 1 and ?t0.0 = 256 and trest = "[4]"]) simp_all
  then show ?thesis by (simp add: forward_def)
qed

section \<open>The shapes of the tokens at the stages\<close>







section \<open>The shapes through the stages\<close>










section \<open>The flat input path\<close>



lemma length_concat_map_rows:
  assumes "\<And>r. length r = k \<Longrightarrow> length (f r) = c" and "length xs = n * k" and "0 < k"
  shows "length (concat (map f (rows_of k xs))) = n * c"
proof -
  have "\<forall>r\<in>set (map f (rows_of k xs)). length r = c"
    using assms(1) by (auto simp: rows_of_uniform)
  then have "length (concat (map f (rows_of k xs))) = length (map f (rows_of k xs)) * c"
    by (rule length_concat_uniform)
  then show ?thesis using assms(2,3) by (simp add: length_rows_of)
qed










section \<open>The layout of the returned logits\<close>

lemma length_concat_map_rows0:
  assumes "\<And>r. length r = k \<Longrightarrow> length (f r) = c" and "length xs = n * k"
    and "k = 0 \<Longrightarrow> n * c = 0"
  shows "length (concat (map f (rows_of k xs))) = n * c"
proof (cases "k = 0")
  case True
  then show ?thesis using assms(3) by (simp add: rows_of_def)
next
  case False
  then show ?thesis using assms(1,2) by (intro length_concat_map_rows) simp_all
qed





lemma take_rows_nth:
  assumes len: "length xs = n * M" and i: "i < n" and v: "v < V" and VM: "V \<le> M"
  shows "concat (map (take V) (rows_of M xs)) ! (i * V + v) = xs ! (i * M + v)"
proof -
  have M: "0 < M" using v VM by simp
  have il: "i < length xs div M" using len i M by simp
  have un: "\<forall>r\<in>set (map (take V) (rows_of M xs)). length r = V"
    using VM by (auto simp: rows_of_uniform)
  have "concat (map (take V) (rows_of M xs)) ! (i * V + v) = map (take V) (rows_of M xs) ! i ! v"
    using un v il by (intro nth_concat_uniform) (simp_all add: length_rows_of)
  also have "\<dots> = rows_of M xs ! i ! v" using il v by (simp add: length_rows_of)
  also have "\<dots> = xs ! (i * M + v)" using il v VM by (intro rows_of_nth_nth) simp_all
  finally show ?thesis .
qed



section \<open>The loss\<close>



lemma grid_index_bound:
  fixes i c j b V n :: nat
  assumes "c < V" and "j < n"
  shows "c * n + j < V * n"
proof -
  have "c * n + j < c * n + n" using assms(2) by simp
  also have "\<dots> = Suc c * n" by simp
  also have "\<dots> \<le> V * n" using assms(1) by (intro mult_le_mono1) simp
  finally show ?thesis .
qed






section \<open>Where the start-token logit goes\<close>











section \<open>The projection to the next stage\<close>

text \<open>
  In a constructed model every stage but the last has a projection to the next stage,
  with the next stage's dimension and sequence length, and the last stage has the
  identity.
\<close>

lemma make_stages_proj:
  "length depths = length dims \<Longrightarrow> length nls = length dims \<Longrightarrow>
   length (make_stages (h # dims) (k # depths) nls) = Suc (length dims) \<and>
   (\<forall>i < length dims.
      st_proj (make_stages (h # dims) (k # depths) nls ! i) = Some (dims ! i, nls ! i)) \<and>
   st_proj (make_stages (h # dims) (k # depths) nls ! length dims) = None"
proof (induction dims arbitrary: h k depths nls)
  case Nil
  then show ?case by simp
next
  case (Cons h' dims)
  obtain nl nls' where nls: "nls = nl # nls'" and ln: "length nls' = length dims"
    using Cons.prems(2) by (cases nls) simp_all
  obtain k' depths' where depths: "depths = k' # depths'" and ld: "length depths' = length dims"
    using Cons.prems(1) by (cases depths) simp_all
  let ?rest = "make_stages (h' # dims) (k' # depths') nls'"
  have IH: "length ?rest = Suc (length dims) \<and>
      (\<forall>i < length dims. st_proj (?rest ! i) = Some (dims ! i, nls' ! i)) \<and>
      st_proj (?rest ! length dims) = None"
    by (rule Cons.IH [OF ld ln])
  have unf: "make_stages (h # h' # dims) (k # depths) nls
      = \<lparr>st_dim = h, st_depth = k, st_proj = Some (h', nl)\<rparr> # ?rest"
    unfolding nls depths by simp
  have n0: "nls ! 0 = nl" and nS: "\<And>j. nls ! Suc j = nls' ! j"
    unfolding nls by simp_all
  have len: "length (make_stages (h # h' # dims) (k # depths) nls) = Suc (length (h' # dims))"
    unfolding unf using IH by (simp del: make_stages.simps)
  have some: "st_proj (make_stages (h # h' # dims) (k # depths) nls ! i)
      = Some ((h' # dims) ! i, nls ! i)" if i: "i < length (h' # dims)" for i
  proof (cases i)
    case 0
    then show ?thesis by (simp add: unf n0 del: make_stages.simps)
  next
    case (Suc j)
    then have "j < length dims" using i by simp
    then have "st_proj (?rest ! j) = Some (dims ! j, nls' ! j)" using IH by blast
    then show ?thesis by (simp add: unf Suc nS del: make_stages.simps)
  qed
  have none: "st_proj (make_stages (h # h' # dims) (k # depths) nls ! length (h' # dims)) = None"
    unfolding unf using IH by (simp del: make_stages.simps)
  show ?case using len some none by blast
qed

lemma sliced_rows:
  assumes len: "length E = N * (L * h)" and h: "0 < h" and r: "\<rho> < N" and p: "p < L - 1"
  shows "rows_of h (concat (map (take ((L - 1) * h)) (rows_of (L * h) E))) ! (\<rho> * (L - 1) + p)
       = rows_of h E ! (\<rho> * L + p)"
proof (rule nth_equalityI)
  let ?A = "concat (map (take ((L - 1) * h)) (rows_of (L * h) E))"
  have L0: "0 < L" using p by simp
  have Lh: "0 < L * h" using L0 h by simp
  have lenA: "length ?A = N * ((L - 1) * h)"
    using len Lh by (intro length_concat_map_rows) (simp_all add: diff_mult_distrib)
  have pL: "p < L" using p by simp
  have RA: "\<rho> * (L - 1) + p < N * (L - 1)" using r p by (rule grid_index_bound)
  have RE: "\<rho> * L + p < N * L" using r pL by (rule grid_index_bound)
  have ia: "\<rho> * (L - 1) + p < length ?A div h" using lenA RA h by simp
  have ie: "\<rho> * L + p < length E div h" using len RE h by simp
  show "length (rows_of h ?A ! (\<rho> * (L - 1) + p)) = length (rows_of h E ! (\<rho> * L + p))"
    using length_rows_of_nth [OF ia] length_rows_of_nth [OF ie] by simp
  fix j assume "j < length (rows_of h ?A ! (\<rho> * (L - 1) + p))"
  then have j: "j < h" using length_rows_of_nth [OF ia] by simp
  have pj: "p * h + j < (L - 1) * h" using p j by (rule grid_index_bound)
  have "rows_of h ?A ! (\<rho> * (L - 1) + p) ! j = ?A ! ((\<rho> * (L - 1) + p) * h + j)"
    using ia j by (rule rows_of_nth_nth)
  also have "(\<rho> * (L - 1) + p) * h + j = \<rho> * ((L - 1) * h) + (p * h + j)"
    by (simp add: algebra_simps)
  also have "?A ! (\<rho> * ((L - 1) * h) + (p * h + j)) = E ! (\<rho> * (L * h) + (p * h + j))"
    using len r pj by (intro take_rows_nth) simp_all
  also have "\<rho> * (L * h) + (p * h + j) = (\<rho> * L + p) * h + j" by (simp add: algebra_simps)
  also have "E ! ((\<rho> * L + p) * h + j) = rows_of h E ! (\<rho> * L + p) ! j"
    using rows_of_nth_nth [OF ie j] by simp
  finally show "rows_of h ?A ! (\<rho> * (L - 1) + p) ! j = rows_of h E ! (\<rho> * L + p) ! j" .
qed

lemma linear_rows_nth:
  assumes "R < length rs" and "c < n_out"
  shows "concat (map (\<lambda>v. map (lin v) [0..<n_out]) rs) ! (R * n_out + c) = lin (rs ! R) c"
proof -
  have un: "\<forall>r\<in>set (map (\<lambda>v. map (lin v) [0..<n_out]) rs). length r = n_out" by auto
  have "concat (map (\<lambda>v. map (lin v) [0..<n_out]) rs) ! (R * n_out + c)
      = map (\<lambda>v. map (lin v) [0..<n_out]) rs ! R ! c"
    using un assms by (intro nth_concat_uniform) simp_all
  then show ?thesis using assms by simp
qed

text \<open>
  Claim C3, as the code has it. The output \<^verbatim>\<open>attended\<close> of a stage that is not the
  finest has shape \<open>pre @ [L, h]\<close>, position 0 of the \<open>L\<close> positions being the start
  token. The code passes \<^verbatim>\<open>attended[..., :-1, :]\<close> to the projection: the last position
  is dropped and the start-token position is kept. Each of the remaining \<open>L - 1\<close>
  positions \<open>p = 0 .. L-2\<close> of each row \<open>\<rho>\<close> is projected by the linear layer to
  \<open>nl * nd\<close> features, which become the \<open>nl\<close> positions of row \<open>\<rho> * (L-1) + p\<close> of the
  next stage, \<open>nd\<close> features each. The projection of the finest stage is the identity.
\<close>

theorem project_stage_positions:
  assumes sh: "shape attended = pre @ [L, h]" and pre: "pre \<noteq> []" and wf: "wf_tensor attended"
    and h: "0 < h" and nl: "0 < nl" and sd: "st_dim s = h" and sp: "st_proj s = Some (nd, nl)"
  shows "(\<exists>t. project_stage s lin attended = Inr t \<and>
            shape t = [prod_list pre * (L - 1), nl, nd] \<and>
            (\<forall>\<rho> < prod_list pre. \<forall>p < L - 1. \<forall>q < nl. \<forall>f < nd.
               elems t ! (((\<rho> * (L - 1) + p) * nl + q) * nd + f)
                 = lin (rows_of h (elems attended) ! (\<rho> * L + p)) (q * nd + f))) \<and>
         (\<forall>t'. proj h None lin t' = Inr t')"
proof -
  define N where "N = prod_list pre"
  define A where "A = concat (map (take ((L - 1) * h)) (rows_of (L * h) (elems attended)))"
  define B where "B = concat (map (\<lambda>v. map (lin v) [0..<nd * nl]) (rows_of h A))"
  obtain b pre' where p': "pre = b # pre'" using pre by (cases pre) simp_all
  have lenE: "length (elems attended) = N * (L * h)"
    using wf sh by (simp add: wf_tensor_def N_def mult.assoc)
  have dl: "drop_last_pos attended = Inr \<lparr>shape = pre @ [L - 1, h], elems = A\<rparr>"
    by (simp add: drop_last_pos_def sh A_def)
  have fm: "flatten_mid \<lparr>shape = pre @ [L - 1, h], elems = A\<rparr>
      = Inr \<lparr>shape = [b, prod_list pre' * (L - 1), h], elems = A\<rparr>"
    by (simp add: flatten_mid_def p' butlast_append)
  have al: "apply_linear h (nd * nl) lin \<lparr>shape = [b, prod_list pre' * (L - 1), h], elems = A\<rparr>
      = Inr \<lparr>shape = [b, prod_list pre' * (L - 1), nd * nl], elems = B\<rparr>"
    using h by (simp add: apply_linear_def B_def)
  have sp': "split_positions nl \<lparr>shape = [b, prod_list pre' * (L - 1), nd * nl], elems = B\<rparr>
      = Inr \<lparr>shape = [N * (L - 1), nl, nd], elems = B\<rparr>"
    using nl by (simp add: split_positions_def N_def p' mult.assoc)
  have res: "project_stage s lin attended = Inr \<lparr>shape = [N * (L - 1), nl, nd], elems = B\<rparr>"
    unfolding project_stage_def proj_def sd sp
    by (simp only: dl fm al sp' sum.case option.case prod.case)
  have lenA: "length A = N * ((L - 1) * h)"
    unfolding A_def
  proof (rule length_concat_map_rows0)
    show "length (elems attended) = N * (L * h)" by (fact lenE)
    show "length (take ((L - 1) * h) r) = (L - 1) * h" if "length r = L * h" for r :: "'a list"
      using that by (simp add: diff_mult_distrib)
    show "N * ((L - 1) * h) = 0" if "L * h = 0" using that h by simp
  qed
  have el: "B ! (((\<rho> * (L - 1) + p) * nl + q) * nd + f)
      = lin (rows_of h (elems attended) ! (\<rho> * L + p)) (q * nd + f)"
    if r: "\<rho> < N" and p: "p < L - 1" and q: "q < nl" and f: "f < nd" for \<rho> p q f
  proof -
    have R: "\<rho> * (L - 1) + p < N * (L - 1)" using r p by (rule grid_index_bound)
    have Rl: "\<rho> * (L - 1) + p < length (rows_of h A)"
      using R lenA h by (simp add: length_rows_of)
    have c: "q * nd + f < nd * nl" using grid_index_bound [OF q f] by (simp add: mult.commute)
    have "((\<rho> * (L - 1) + p) * nl + q) * nd + f = (\<rho> * (L - 1) + p) * (nd * nl) + (q * nd + f)"
      by (simp add: algebra_simps)
    then have "B ! (((\<rho> * (L - 1) + p) * nl + q) * nd + f)
        = B ! ((\<rho> * (L - 1) + p) * (nd * nl) + (q * nd + f))" by (rule arg_cong)
    also have "\<dots> = lin (rows_of h A ! (\<rho> * (L - 1) + p)) (q * nd + f)"
      unfolding B_def using Rl c by (rule linear_rows_nth)
    also have "rows_of h A ! (\<rho> * (L - 1) + p) = rows_of h (elems attended) ! (\<rho> * L + p)"
      unfolding A_def using lenE h r p by (rule sliced_rows)
    finally show ?thesis .
  qed
  have id: "\<forall>t'. proj h None lin t' = Inr t'" by (simp add: proj_def)
  show ?thesis using res el id unfolding N_def by simp
qed

theorem project_stage_positions_witness:
  "\<exists>t. project_stage \<lparr>st_dim = 1, st_depth = 0, st_proj = Some (1, 1)\<rparr> first_feature
             \<lparr>shape = [1, 3, 1], elems = [10, 20, 30]\<rparr> = Inr t \<and>
       shape t = [2, 1, 1] \<and> elems t ! 0 = 10 \<and> elems t ! 1 = 20"
proof -
  let ?s = "\<lparr>st_dim = 1, st_depth = 0, st_proj = Some (1 :: nat, 1 :: nat)\<rparr>"
  let ?a = "\<lparr>shape = [1, 3, 1], elems = [10, 20, 30 :: int]\<rparr>"
  have sh: "shape ?a = [1] @ [3, 1]" by simp
  have pre: "[1 :: nat] \<noteq> []" by simp
  have wf: "wf_tensor ?a" by (simp add: wf_tensor_def)
  have pos: "(0 :: nat) < 1" by simp
  have sd: "st_dim ?s = 1" and sp: "st_proj ?s = Some (1, 1)" by simp_all
  obtain t where t: "project_stage ?s first_feature ?a = Inr t"
    and st: "shape t = [prod_list [1] * (3 - 1), 1, 1]"
    and el: "\<forall>\<rho> < prod_list [1]. \<forall>p < 3 - 1. \<forall>q < 1. \<forall>f < 1.
               elems t ! (((\<rho> * (3 - 1) + p) * 1 + q) * 1 + f)
                 = first_feature (rows_of 1 (elems ?a) ! (\<rho> * 3 + p)) (q * 1 + f)"
    using project_stage_positions [OF sh pre wf pos pos sd sp, of first_feature] by blast
  have r0: "rows_of 1 (elems ?a) ! 0 = [10]" and r1: "rows_of 1 (elems ?a) ! 1 = [20]"
    by (simp_all add: rows_of_def)
  have "elems t ! 0 = 10"
    using el [rule_format, of 0 0 0 0] r0 by (simp add: first_feature_def)
  moreover have "elems t ! 1 = 20"
    using el [rule_format, of 0 1 0 0] r1 by (simp add: first_feature_def)
  ultimately show ?thesis using t st by simp
qed

text \<open>
  The claim as stated, that the start-token position is dropped, fails: of the three
  positions \<open>10, 20, 30\<close> (the first one the start token) the projection receives
  \<open>10\<close> and \<open>20\<close>, not \<open>20\<close> and \<open>30\<close>.
\<close>

theorem project_stage_keeps_start_position:
  "project_stage \<lparr>st_dim = 1, st_depth = 0, st_proj = Some (1, 1)\<rparr> first_feature
     \<lparr>shape = [1, 3, 1], elems = [10, 20, 30]\<rparr>
     = Inr \<lparr>shape = [2, 1, 1], elems = [10, 20]\<rparr>"
  by code_simp

end
